theory Spec2Isabelle
  imports Complex_Main
begin

section \<open>Python values and exceptions\<close>

text \<open>
  The exception classes that the program names or that its operations raise.
  \<open>BaseOnly\<close> stands for the classes below \<open>BaseException\<close> that are not below
  \<open>Exception\<close> (\<open>KeyboardInterrupt\<close>, \<open>SystemExit\<close>): an \<open>except Exception\<close> clause
  does not catch them. \<open>OtherException\<close> is any further subclass of \<open>Exception\<close>.
\<close>

datatype exn_class =
  FileNotFoundError | KeyError | IndexError | TypeError | ValueError
  | OtherException | BaseOnly

text \<open>An exception: its class and the text \<open>str(e)\<close> gives for it.\<close>

datatype py_exn = PyExn exn_class string

fun exn_class_of :: "py_exn \<Rightarrow> exn_class" where
  "exn_class_of (PyExn c m) = c"

fun exn_str :: "py_exn \<Rightarrow> string" where
  "exn_str (PyExn c m) = m"

definition is_Exception :: "py_exn \<Rightarrow> bool" where
  "is_Exception e = (exn_class_of e \<noteq> BaseOnly)"

text \<open>Sequencing of computations that may raise: the first exception wins.\<close>

fun exn_bind :: "py_exn + 'a \<Rightarrow> ('a \<Rightarrow> py_exn + 'b) \<Rightarrow> py_exn + 'b" where
  "exn_bind (Inl e) f = Inl e"
| "exn_bind (Inr x) f = f x"

section \<open>The encoding tables\<close>

text \<open>
  A dict literal, as the list of its items in source order (\<open>keys()\<close> lists them in
  that order). Subscripting with a key the dict does not have raises \<open>KeyError\<close>, whose
  text is the \<open>repr\<close> of the key.
\<close>

definition py_repr :: "string \<Rightarrow> string" where
  "py_repr s = [CHR 0x27] @ s @ [CHR 0x27]"

definition dict_get :: "(string \<times> 'v) list \<Rightarrow> string \<Rightarrow> py_exn + 'v" where
  "dict_get d k =
     (case map_of d k of
        None \<Rightarrow> Inl (PyExn KeyError (py_repr k))
      | Some v \<Rightarrow> Inr v)"

definition dict_keys :: "(string \<times> 'v) list \<Rightarrow> string list" where
  "dict_keys d = map fst d"

definition ENCODINGS :: "(string \<times> (string \<times> int) list) list" where
  "ENCODINGS =
     [(''Menopause'', [(''No'', 0), (''Yes'', 1)]),
      (''Breast'', [(''Left'', 0), (''None'', 1), (''Right'', 2)]),
      (''Metastasis'', [(''No'', 0), (''None'', 1), (''Yes'', 2)]),
      (''BreastQuadrant'',
         [(''Lower inner'', 0),
          (''Lower outer'', 1),
          (''None'', 2),
          (''Upper inner'', 3),
          (''Upper outer'', 4)]),
      (''History'', [(''No'', 0), (''Yes'', 2), (''None'', 1)])]"

text \<open>\<open>ENCODINGS[field][label]\<close>: two subscripts, each of which may raise.\<close>

definition encode :: "string \<Rightarrow> string \<Rightarrow> py_exn + int" where
  "encode field label = exn_bind (dict_get ENCODINGS field) (\<lambda>table. dict_get table label)"

text \<open>\<open>list(ENCODINGS[field].keys())\<close>, the options a select box offers.\<close>

definition field_options :: "string \<Rightarrow> string list" where
  "field_options field =
     (case dict_get ENCODINGS field of Inl e \<Rightarrow> [] | Inr table \<Rightarrow> dict_keys table)"

section \<open>Collecting the inputs\<close>

text \<open>
  What the widgets of the form return in one run of the script: the value of each
  slider and select box, and whether the submit button was pressed.
\<close>

record form =
  year :: int
  age :: int
  menopause :: string
  tumor_size :: int
  inv_nodes :: int
  breast :: string
  metastasis :: string
  breast_quadrant :: string
  history :: string
  submitted :: bool

text \<open>
  The values the widgets can return: a select box returns one of its options, a slider
  stays within its bounds.
\<close>

definition labels_known :: "form \<Rightarrow> bool" where
  "labels_known f =
     (menopause f \<in> set (field_options ''Menopause'') \<and>
      breast f \<in> set (field_options ''Breast'') \<and>
      metastasis f \<in> set (field_options ''Metastasis'') \<and>
      breast_quadrant f \<in> set (field_options ''BreastQuadrant'') \<and>
      history f \<in> set (field_options ''History''))"

definition widget_values :: "form \<Rightarrow> bool" where
  "widget_values f =
     (2000 \<le> year f \<and> year f \<le> 2030 \<and>
      18 \<le> age f \<and> age f \<le> 100 \<and>
      0 \<le> tumor_size f \<and> tumor_size f \<le> 20 \<and>
      inv_nodes f \<in> set [0, 1, 2] \<and>
      labels_known f)"

text \<open>
  \<open>get_user_inputs\<close>: \<open>None\<close> unless the form was submitted; on submission the list
  display is evaluated left to right, so the first failing subscript raises.
\<close>

definition get_user_inputs :: "form \<Rightarrow> py_exn + int list option" where
  "get_user_inputs f =
     (if submitted f then
        exn_bind (encode ''Menopause'' (menopause f)) (\<lambda>m.
        exn_bind (encode ''Breast'' (breast f)) (\<lambda>b.
        exn_bind (encode ''Metastasis'' (metastasis f)) (\<lambda>t.
        exn_bind (encode ''BreastQuadrant'' (breast_quadrant f)) (\<lambda>q.
        exn_bind (encode ''History'' (history f)) (\<lambda>h.
          Inr (Some [year f, age f, m, tumor_size f, inv_nodes f, b, t, q, h]))))))
      else Inr None)"

section \<open>Floating-point numbers and their formatting\<close>

text \<open>
  A finite binary64 number: \<open>Float64 m e\<close> is the number \<open>m * 2 ^ e\<close>. Every result of an
  operation is rounded to 53 significant bits, to nearest with ties to even. Overflow,
  subnormal numbers, signed zeros, infinities and NaN are outside this model: the
  numbers formatted here are class probabilities and their products with 100.
\<close>

datatype float64 = Float64 int int

fun float64_value :: "float64 \<Rightarrow> real" where
  "float64_value (Float64 m e) = real_of_int m * 2 powi e"

text \<open>The number of bits of a positive integer (0 for the others).\<close>

function bit_length :: "int \<Rightarrow> nat" where
  "bit_length n = (if n \<le> 0 then 0 else Suc (bit_length (n div 2)))"
  by pat_completeness auto
termination
  by (relation "measure nat") auto

declare bit_length.simps [simp del]

text \<open>The integer nearest to \<open>n / d\<close> for \<open>d > 0\<close>, a tie going to the even one.\<close>

definition round_half_even :: "int \<Rightarrow> int \<Rightarrow> int" where
  "round_half_even n d =
     (let q = n div d; r = n mod d
      in if 2 * r < d then q
         else if d < 2 * r then q + 1
         else if even q then q else q + 1)"

text \<open>
  The binary64 number nearest to \<open>n / d\<close> for \<open>d > 0\<close>. With \<open>e\<close> the exponent of the
  leading bit of \<open>\<bar>n\<bar> / d\<close> (found from the bit lengths, which fix it up to one), the
  quotient is scaled by \<open>2 ^ (52 - e)\<close> and rounded to an integer.
\<close>

definition float64_round :: "int \<Rightarrow> int \<Rightarrow> float64" where
  "float64_round n d =
     (if n = 0 then Float64 0 0
      else
        let e0 = int (bit_length \<bar>n\<bar>) - int (bit_length d);
            e = (if (if 0 \<le> e0 then d * 2 ^ nat e0 \<le> \<bar>n\<bar> else d \<le> \<bar>n\<bar> * 2 ^ nat (- e0))
                 then e0 else e0 - 1);
            s = 52 - e
        in Float64
             (if 0 \<le> s then round_half_even (n * 2 ^ nat s) d
              else round_half_even n (d * 2 ^ nat (- s)))
             (- s))"

definition float64_of_int :: "int \<Rightarrow> float64" where
  "float64_of_int i = float64_round i 1"

fun float64_mult :: "float64 \<Rightarrow> float64 \<Rightarrow> float64" where
  "float64_mult (Float64 m1 e1) (Float64 m2 e2) =
     (let m = m1 * m2; e = e1 + e2
      in if 0 \<le> e then float64_round (m * 2 ^ nat e) 1 else float64_round m (2 ^ nat (- e)))"

text \<open>The decimal digits of an integer that is not negative, and \<open>str\<close> of an integer.\<close>

definition digit_char :: "int \<Rightarrow> char" where
  "digit_char d = ''0123456789'' ! nat d"

function str_digits :: "int \<Rightarrow> string" where
  "str_digits n =
     (if n < 10 then [digit_char n] else str_digits (n div 10) @ [digit_char (n mod 10)])"
  by pat_completeness auto
termination
  by (relation "measure nat") auto

declare str_digits.simps [simp del]

definition str_int :: "int \<Rightarrow> string" where
  "str_int i = (if i < 0 then ''-'' @ str_digits (- i) else str_digits i)"

text \<open>
  The format specification \<open>.1f\<close>: the exact value, rounded to tenths (ties to even),
  written with one digit after the point.
\<close>

fun format_1f :: "float64 \<Rightarrow> string" where
  "format_1f (Float64 m e) =
     (let tenths = (if 0 \<le> e then \<bar>m\<bar> * 2 ^ nat e * 10
                    else round_half_even (\<bar>m\<bar> * 10) (2 ^ nat (- e)))
      in (if m < 0 then ''-'' else []) @
         str_digits (tenths div 10) @ ''.'' @ str_digits (tenths mod 10))"

section \<open>Sequences\<close>

text \<open>
  \<open>xs[i]\<close> for an array, as \<open>predict\<close> and \<open>predict_proba\<close> return them: a negative
  index counts from the end, and an index outside \<open>-len(xs) .. len(xs) - 1\<close> raises
  \<open>IndexError\<close> with the text that numpy gives it.
\<close>

definition subscript :: "'a list \<Rightarrow> int \<Rightarrow> py_exn + 'a" where
  "subscript xs i =
     (let n = int (length xs)
      in if 0 \<le> i \<and> i < n then Inr (xs ! nat i)
         else if - n \<le> i \<and> i < 0 then Inr (xs ! nat (n + i))
         else Inl (PyExn IndexError
                (''index '' @ str_int i @ '' is out of bounds for axis 0 with size '' @
                 str_int (int (length xs)))))"

section \<open>The classifier and its loading\<close>

text \<open>
  A value that \<open>predict\<close> returns for a row, and that \<open>make_prediction\<close> returns as its
  first component: a string or an integer class code.
\<close>

datatype pyval = PStr string | PInt int

text \<open>
  The data frame built for one request: its column names and its single row.
  The constructor raises \<open>ValueError\<close> when the row has not one value per column.
\<close>

type_synonym frame = "string list \<times> int list"

definition data_frame :: "int list \<Rightarrow> string list \<Rightarrow> py_exn + frame" where
  "data_frame row names =
     (if length row = length names then Inr (names, row)
      else Inl (PyExn ValueError
             (str_int (int (length names)) @ '' columns passed, passed data had '' @
              str_int (int (length row)) @ '' columns'')))"

text \<open>
  The unpickled model is opaque: two operations on a frame, each of which either
  raises or returns one entry per row (a class value, and a list of class
  probabilities).
\<close>

record classifier =
  predict :: "frame \<Rightarrow> py_exn + pyval list"
  predict_proba :: "frame \<Rightarrow> py_exn + float64 list list"

text \<open>The calls made on the classifier, in order.\<close>

datatype call = Predict frame | PredictProba frame

text \<open>What the page shows: the calls on \<open>st\<close> that produce output, in order.\<close>

datatype ui =
  Subheader string | Error string | Success string | Balloons | Write string
  | Expander string "ui list"

text \<open>
  \<open>load_model\<close>, given what opening and unpickling the artifact file does: it raises,
  or yields the classifier. The result is the cached model (\<open>None\<close> after a failure)
  and the messages shown; an exception outside \<open>Exception\<close> is not caught.
\<close>

definition load_model :: "py_exn + classifier \<Rightarrow> py_exn + classifier option \<times> ui list" where
  "load_model attempt =
     (case attempt of
        Inr model \<Rightarrow> Inr (Some model, [])
      | Inl e \<Rightarrow>
          if exn_class_of e = FileNotFoundError then
            Inr (None,
              [Error (''Model file not found. Please ensure '' @ py_repr ''Deployment_model.pkl'' @
                      '' is in the correct directory.'')])
          else if is_Exception e then
            Inr (None, [Error (''Error loading model: '' @ exn_str e)])
          else Inl e)"

section \<open>Prediction\<close>

definition feature_names :: "string list" where
  "feature_names =
     [''Year'', ''Age'', ''Menopause'', ''Tumor Size (cm)'', ''Inv-Nodes'',
      ''Breast'', ''Metastasis'', ''Breast Quadrant'', ''History'']"

text \<open>
  The body of the \<open>try\<close> block of \<open>make_prediction\<close>: the calls it makes, and the pair
  it returns or the exception that ends it.
\<close>

definition try_predict ::
  "classifier \<Rightarrow> int list \<Rightarrow> call list \<times> (py_exn + pyval \<times> float64 list)" where
  "try_predict bot' input_data =
     (case data_frame input_data feature_names of
        Inl e \<Rightarrow> ([], Inl e)
      | Inr input_df \<Rightarrow>
          (case exn_bind (predict bot' input_df) (\<lambda>a. subscript a 0) of
             Inl e \<Rightarrow> ([Predict input_df], Inl e)
           | Inr prediction \<Rightarrow>
               (case exn_bind (predict_proba bot' input_df) (\<lambda>a. subscript a 0) of
                  Inl e \<Rightarrow> ([Predict input_df, PredictProba input_df], Inl e)
                | Inr proba \<Rightarrow>
                    ([Predict input_df, PredictProba input_df], Inr (prediction, proba)))))"

text \<open>
  \<open>make_prediction\<close>, with the global \<open>bot\<close> as the parameter \<open>bot'\<close>. The result is the calls
  made on the classifier and the returned pair; the \<open>except Exception\<close> clause turns an
  exception of the \<open>try\<close> block into a message, and lets any other one through.
\<close>

definition make_prediction ::
  "classifier option \<Rightarrow> int list \<Rightarrow> call list \<times> (py_exn + pyval \<times> float64 list option)" where
  "make_prediction bot' input_data =
     (case bot' of
        None \<Rightarrow> ([], Inr (PStr ''Error: Model not available'', None))
      | Some b \<Rightarrow>
          (case try_predict b input_data of
             (calls, Inr (prediction, proba)) \<Rightarrow> (calls, Inr (prediction, Some proba))
           | (calls, Inl e) \<Rightarrow>
               if is_Exception e
               then (calls, Inr (PStr (''Prediction error: '' @ exn_str e), None))
               else (calls, Inl e)))"

section \<open>Displaying the result\<close>

definition newline :: string where
  "newline = [CHR 0x0A]"

definition low_risk_text :: string where
  "low_risk_text =
     newline @
     ''            This suggests a low risk of breast cancer. However, regular screenings '' @
     newline @
     ''            are still recommended based on your age and risk factors.'' @
     newline @
     ''            ''"

definition consult_text :: string where
  "consult_text =
     newline @
     ''            **Please consult with a healthcare professional immediately** '' @
     newline @
     ''            for further evaluation and diagnostic testing.'' @
     newline @
     ''            ''"

text \<open>\<open>probability[i]\<close>, where \<open>probability\<close> may be \<open>None\<close>.\<close>

definition proba_subscript :: "float64 list option \<Rightarrow> int \<Rightarrow> py_exn + float64" where
  "proba_subscript probability i =
     (case probability of
        None \<Rightarrow> Inl (PyExn TypeError (py_repr ''NoneType'' @ '' object is not subscriptable''))
      | Some ps \<Rightarrow> subscript ps i)"

definition percent :: "float64 \<Rightarrow> float64" where
  "percent p = float64_mult p (float64_of_int 100)"

text \<open>The label chosen for a prediction that is not a string.\<close>

definition result_label :: "int \<Rightarrow> string" where
  "result_label p = (if p = 0 then ''Benign'' else ''Malignant'')"

definition result_line :: "string \<Rightarrow> float64 \<Rightarrow> string" where
  "result_line result confidence =
     ''**Result:** '' @ result @ '' ('' @ format_1f confidence @ ''% confidence)''"

text \<open>
  \<open>display_results\<close>: what has been shown when it ends, and the exception that ended
  it, if one did. The subscripts of \<open>probability\<close> are where it can raise.
\<close>

definition display_results :: "pyval \<Rightarrow> float64 list option \<Rightarrow> ui list \<times> py_exn option" where
  "display_results prediction probability =
     (case prediction of
        PStr message \<Rightarrow> ([Subheader ''Assessment Results'', Error message], None)
      | PInt p \<Rightarrow>
          (let result = result_label p in
           case proba_subscript probability p of
             Inl e \<Rightarrow> ([Subheader ''Assessment Results''], Some e)
           | Inr c \<Rightarrow>
               (let confidence = percent c;
                    shown =
                      Subheader ''Assessment Results'' #
                      (if p = 0
                       then [Success (result_line result confidence), Balloons,
                             Write low_risk_text]
                       else [Error (result_line result confidence), Write consult_text])
                in case proba_subscript probability 0 of
                     Inl e \<Rightarrow> (shown @ [Expander ''See detailed probabilities'' []], Some e)
                   | Inr p0 \<Rightarrow>
                       (let benign = Write (''Benign probability: '' @ format_1f (percent p0) @ ''%'')
                        in case proba_subscript probability 1 of
                             Inl e \<Rightarrow>
                               (shown @ [Expander ''See detailed probabilities'' [benign]], Some e)
                           | Inr p1 \<Rightarrow>
                               (shown @
                                [Expander ''See detailed probabilities''
                                   [benign,
                                    Write (''Malignant probability: '' @
                                           format_1f (percent p1) @ ''%'')]],
                                None)))))"

section \<open>Notions used to state the properties\<close>

text \<open>\<open>sub in s\<close> for strings: \<open>sub\<close> occurs in \<open>s\<close> as a contiguous run.\<close>

fun starts_with :: "string \<Rightarrow> string \<Rightarrow> bool" where
  "starts_with s [] = True"
| "starts_with [] (c # sub) = False"
| "starts_with (a # s) (c # sub) = (a = c \<and> starts_with s sub)"

fun str_contains :: "string \<Rightarrow> string \<Rightarrow> bool" where
  "str_contains [] sub = (sub = [])"
| "str_contains (a # s) sub = (starts_with (a # s) sub \<or> str_contains s sub)"

text \<open>The message of a failure that \<open>make_prediction\<close> returned, if it returned one.\<close>

definition failure_message ::
  "call list \<times> (py_exn + pyval \<times> float64 list option) \<Rightarrow> string option" where
  "failure_message r =
     (case snd r of
        Inr (PStr message, None) \<Rightarrow> Some message
      | _ \<Rightarrow> None)"

text \<open>The detail view that \<open>display_results\<close> shows for two probabilities.\<close>

definition details :: "float64 \<Rightarrow> float64 \<Rightarrow> ui" where
  "details a b =
     Expander ''See detailed probabilities''
       [Write (''Benign probability: '' @ format_1f (percent a) @ ''%''),
        Write (''Malignant probability: '' @ format_1f (percent b) @ ''%'')]"

text \<open>The codes of a table, in the order of its labels.\<close>

definition field_codes :: "string \<Rightarrow> int list" where
  "field_codes field =
     (case dict_get ENCODINGS field of Inl e \<Rightarrow> [] | Inr table \<Rightarrow> map snd table)"

section \<open>The scenarios of the specification\<close>

definition scenario_form :: form where
  "scenario_form =
     \<lparr>year = 2023, age = 40, menopause = ''No'', tumor_size = 1, inv_nodes = 0,
      breast = ''Left'', metastasis = ''No'', breast_quadrant = ''Lower inner'',
      history = ''No'', submitted = True\<rparr>"

definition scenario_inputs :: "int list" where
  "scenario_inputs = [2023, 40, 0, 1, 0, 0, 0, 0, 0]"

text \<open>A form with a label that no select box offers.\<close>

definition misuse_form :: form where
  "misuse_form = scenario_form\<lparr>metastasis := ''Unknown''\<rparr>"

text \<open>
  The probabilities of the second scenario: the binary64 numbers that the literals
  0.10 and 0.90 denote.
\<close>

definition malignant_proba :: "float64 list" where
  "malignant_proba = [float64_round 10 100, float64_round 90 100]"

text \<open>A classifier that returns the same class and probabilities for every row.\<close>

definition constant_classifier :: "pyval \<Rightarrow> float64 list \<Rightarrow> classifier" where
  "constant_classifier c ps =
     \<lparr>predict = (\<lambda>df. Inr [c]), predict_proba = (\<lambda>df. Inr [ps])\<rparr>"

text \<open>A classifier whose \<open>predict\<close> works and whose \<open>predict_proba\<close> raises.\<close>

definition failing_classifier :: "py_exn \<Rightarrow> classifier" where
  "failing_classifier e =
     \<lparr>predict = (\<lambda>df. Inr [PInt 1]), predict_proba = (\<lambda>df. Inl e)\<rparr>"

definition schema_mismatch :: py_exn where
  "schema_mismatch = PyExn ValueError ''X has 9 features, but the model is expecting 8''"

text \<open>What opening the artifact file raises when the file is absent.\<close>

definition file_not_found :: py_exn where
  "file_not_found =
     PyExn FileNotFoundError
       (''[Errno 2] No such file or directory: '' @ py_repr ''Deployment_model.pkl'')"

section \<open>Encoding\<close>

lemma encode_simps:
  "encode ''Menopause'' l = dict_get [(''No'', 0), (''Yes'', 1)] l"
  "encode ''Breast'' l = dict_get [(''Left'', 0), (''None'', 1), (''Right'', 2)] l"
  "encode ''Metastasis'' l = dict_get [(''No'', 0), (''None'', 1), (''Yes'', 2)] l"
  "encode ''BreastQuadrant'' l =
     dict_get [(''Lower inner'', 0), (''Lower outer'', 1), (''None'', 2),
               (''Upper inner'', 3), (''Upper outer'', 4)] l"
  "encode ''History'' l = dict_get [(''No'', 0), (''Yes'', 2), (''None'', 1)] l"
  by (simp_all add: encode_def ENCODINGS_def dict_get_def)

lemma field_options_simps:
  "field_options ''Menopause'' = [''No'', ''Yes'']"
  "field_options ''Breast'' = [''Left'', ''None'', ''Right'']"
  "field_options ''Metastasis'' = [''No'', ''None'', ''Yes'']"
  "field_options ''BreastQuadrant'' =
     [''Lower inner'', ''Lower outer'', ''None'', ''Upper inner'', ''Upper outer'']"
  "field_options ''History'' = [''No'', ''Yes'', ''None'']"
  by (simp_all add: field_options_def ENCODINGS_def dict_get_def dict_keys_def)

text \<open>A lookup either finds the code of an offered label or raises for the label.\<close>

lemma dict_get_cases:
  "(\<exists>c. dict_get d l = Inr c \<and> l \<in> set (dict_keys d)) \<or>
   (dict_get d l = Inl (PyExn KeyError (py_repr l)) \<and> l \<notin> set (dict_keys d))"
proof (cases "map_of d l")
  case None
  then have "l \<notin> fst ` set d"
    by (simp add: map_of_eq_None_iff)
  with None show ?thesis
    by (simp add: dict_get_def dict_keys_def)
next
  case (Some c)
  then have "l \<in> fst ` set d"
    by (metis map_of_SomeD fst_conv image_eqI)
  with Some show ?thesis
    by (simp add: dict_get_def dict_keys_def)
qed

lemma encode_cases:
  assumes "field \<in> set (dict_keys ENCODINGS)"
  shows "(\<exists>c. encode field l = Inr c \<and> l \<in> set (field_options field)) \<or>
         (encode field l = Inl (PyExn KeyError (py_repr l)) \<and> l \<notin> set (field_options field))"
proof -
  from assms dict_get_cases [of ENCODINGS field]
  obtain table where table: "dict_get ENCODINGS field = Inr table"
    by auto
  from dict_get_cases [of table l] show ?thesis
    by (simp add: encode_def field_options_def table)
qed

lemma fields_of_ENCODINGS:
  "dict_keys ENCODINGS = [''Menopause'', ''Breast'', ''Metastasis'', ''BreastQuadrant'', ''History'']"
  by (simp add: dict_keys_def ENCODINGS_def)

lemma encode_field_cases:
  "(\<exists>c. encode ''Menopause'' l = Inr c \<and> l \<in> set (field_options ''Menopause'')) \<or>
   (encode ''Menopause'' l = Inl (PyExn KeyError (py_repr l)) \<and> l \<notin> set (field_options ''Menopause''))"
  "(\<exists>c. encode ''Breast'' l = Inr c \<and> l \<in> set (field_options ''Breast'')) \<or>
   (encode ''Breast'' l = Inl (PyExn KeyError (py_repr l)) \<and> l \<notin> set (field_options ''Breast''))"
  "(\<exists>c. encode ''Metastasis'' l = Inr c \<and> l \<in> set (field_options ''Metastasis'')) \<or>
   (encode ''Metastasis'' l = Inl (PyExn KeyError (py_repr l)) \<and> l \<notin> set (field_options ''Metastasis''))"
  "(\<exists>c. encode ''BreastQuadrant'' l = Inr c \<and> l \<in> set (field_options ''BreastQuadrant'')) \<or>
   (encode ''BreastQuadrant'' l = Inl (PyExn KeyError (py_repr l)) \<and> l \<notin> set (field_options ''BreastQuadrant''))"
  "(\<exists>c. encode ''History'' l = Inr c \<and> l \<in> set (field_options ''History'')) \<or>
   (encode ''History'' l = Inl (PyExn KeyError (py_repr l)) \<and> l \<notin> set (field_options ''History''))"
  by (rule encode_cases, simp add: fields_of_ENCODINGS)+


lemma encode_known:
  "l \<in> set (field_options ''Menopause'') \<Longrightarrow> \<exists>c. encode ''Menopause'' l = Inr c"
  "l \<in> set (field_options ''Breast'') \<Longrightarrow> \<exists>c. encode ''Breast'' l = Inr c"
  "l \<in> set (field_options ''Metastasis'') \<Longrightarrow> \<exists>c. encode ''Metastasis'' l = Inr c"
  "l \<in> set (field_options ''BreastQuadrant'') \<Longrightarrow> \<exists>c. encode ''BreastQuadrant'' l = Inr c"
  "l \<in> set (field_options ''History'') \<Longrightarrow> \<exists>c. encode ''History'' l = Inr c"
  using encode_field_cases [of l] by blast+

lemma encode_unknown:
  "l \<notin> set (field_options ''Menopause'') \<Longrightarrow>
     encode ''Menopause'' l = Inl (PyExn KeyError (py_repr l))"
  "l \<notin> set (field_options ''Breast'') \<Longrightarrow>
     encode ''Breast'' l = Inl (PyExn KeyError (py_repr l))"
  "l \<notin> set (field_options ''Metastasis'') \<Longrightarrow>
     encode ''Metastasis'' l = Inl (PyExn KeyError (py_repr l))"
  "l \<notin> set (field_options ''BreastQuadrant'') \<Longrightarrow>
     encode ''BreastQuadrant'' l = Inl (PyExn KeyError (py_repr l))"
  "l \<notin> set (field_options ''History'') \<Longrightarrow>
     encode ''History'' l = Inl (PyExn KeyError (py_repr l))"
  using encode_field_cases [of l] by blast+

lemma get_user_inputs_encoded:
  assumes "submitted f"
    and "encode ''Menopause'' (menopause f) = Inr m"
    and "encode ''Breast'' (breast f) = Inr b"
    and "encode ''Metastasis'' (metastasis f) = Inr t"
    and "encode ''BreastQuadrant'' (breast_quadrant f) = Inr q"
    and "encode ''History'' (history f) = Inr h"
  shows "get_user_inputs f =
           Inr (Some [year f, age f, m, tumor_size f, inv_nodes f, b, t, q, h])"
  using assms by (simp add: get_user_inputs_def)

lemma get_user_inputs_known:
  assumes "submitted f" and "labels_known f"
  shows "\<exists>m b t q h.
           encode ''Menopause'' (menopause f) = Inr m \<and>
           encode ''Breast'' (breast f) = Inr b \<and>
           encode ''Metastasis'' (metastasis f) = Inr t \<and>
           encode ''BreastQuadrant'' (breast_quadrant f) = Inr q \<and>
           encode ''History'' (history f) = Inr h \<and>
           get_user_inputs f =
             Inr (Some [year f, age f, m, tumor_size f, inv_nodes f, b, t, q, h])"
proof -
  from assms(2) obtain m where m: "encode ''Menopause'' (menopause f) = Inr m"
    unfolding labels_known_def using encode_known(1) by blast
  from assms(2) obtain b where b: "encode ''Breast'' (breast f) = Inr b"
    unfolding labels_known_def using encode_known(2) by blast
  from assms(2) obtain t where t: "encode ''Metastasis'' (metastasis f) = Inr t"
    unfolding labels_known_def using encode_known(3) by blast
  from assms(2) obtain q where q: "encode ''BreastQuadrant'' (breast_quadrant f) = Inr q"
    unfolding labels_known_def using encode_known(4) by blast
  from assms(2) obtain h where h: "encode ''History'' (history f) = Inr h"
    unfolding labels_known_def using encode_known(5) by blast
  from get_user_inputs_encoded [OF assms(1) m b t q h] m b t q h show ?thesis
    by blast
qed

lemma get_user_inputs_unknown:
  assumes "submitted f" and "\<not> labels_known f"
  shows "\<exists>k. get_user_inputs f = Inl (PyExn KeyError (py_repr k)) \<and>
              k \<in> set [menopause f, breast f, metastasis f, breast_quadrant f, history f]"
proof -
  let ?bad = "\<lambda>k. PyExn KeyError (py_repr k)"
  consider
    (menopause) "menopause f \<notin> set (field_options ''Menopause'')"
  | (breast) m where "encode ''Menopause'' (menopause f) = Inr m"
      "breast f \<notin> set (field_options ''Breast'')"
  | (metastasis) m b where "encode ''Menopause'' (menopause f) = Inr m"
      "encode ''Breast'' (breast f) = Inr b"
      "metastasis f \<notin> set (field_options ''Metastasis'')"
  | (quadrant) m b t where "encode ''Menopause'' (menopause f) = Inr m"
      "encode ''Breast'' (breast f) = Inr b" "encode ''Metastasis'' (metastasis f) = Inr t"
      "breast_quadrant f \<notin> set (field_options ''BreastQuadrant'')"
  | (history) m b t q where "encode ''Menopause'' (menopause f) = Inr m"
      "encode ''Breast'' (breast f) = Inr b" "encode ''Metastasis'' (metastasis f) = Inr t"
      "encode ''BreastQuadrant'' (breast_quadrant f) = Inr q"
      "history f \<notin> set (field_options ''History'')"
    using assms(2) unfolding labels_known_def
    by (meson encode_known)
  then show ?thesis
  proof cases
    case menopause
    from encode_unknown(1) [OF this] assms(1)
    have "get_user_inputs f = Inl (?bad (menopause f))"
      by (simp add: get_user_inputs_def)
    then show ?thesis
      by (intro exI [of _ "menopause f"]) simp
  next
    case breast
    from breast(1) encode_unknown(2) [OF breast(2)] assms(1)
    have "get_user_inputs f = Inl (?bad (breast f))"
      by (simp add: get_user_inputs_def)
    then show ?thesis
      by (intro exI [of _ "breast f"]) simp
  next
    case metastasis
    from metastasis(1,2) encode_unknown(3) [OF metastasis(3)] assms(1)
    have "get_user_inputs f = Inl (?bad (metastasis f))"
      by (simp add: get_user_inputs_def)
    then show ?thesis
      by (intro exI [of _ "metastasis f"]) simp
  next
    case quadrant
    from quadrant(1,2,3) encode_unknown(4) [OF quadrant(4)] assms(1)
    have "get_user_inputs f = Inl (?bad (breast_quadrant f))"
      by (simp add: get_user_inputs_def)
    then show ?thesis
      by (intro exI [of _ "breast_quadrant f"]) simp
  next
    case history
    from history(1,2,3,4) encode_unknown(5) [OF history(5)] assms(1)
    have "get_user_inputs f = Inl (?bad (history f))"
      by (simp add: get_user_inputs_def)
    then show ?thesis
      by (intro exI [of _ "history f"]) simp
  qed
qed

lemma scenario_form_inputs: "get_user_inputs scenario_form = Inr (Some scenario_inputs)"
  by (simp add: get_user_inputs_def scenario_form_def scenario_inputs_def encode_simps
      dict_get_def)

lemma widget_values_labels_known: "widget_values f \<Longrightarrow> labels_known f"
  by (simp add: widget_values_def)

lemma scenario_form_widget_values: "widget_values scenario_form"
  by (simp add: widget_values_def labels_known_def scenario_form_def field_options_simps)

text \<open>
  C1. The submission (Year 2023, Age 40, Menopause "No", Tumor size 1, Inv-Nodes 0,
  Breast "Left", Metastasis "No", Quadrant "Lower inner", History "No") is encoded by
  \<open>get_user_inputs\<close> as exactly the vector [2023, 40, 0, 1, 0, 0, 0, 0, 0].
\<close>

theorem scenario_encoding:
  "get_user_inputs
     \<lparr>year = 2023, age = 40, menopause = ''No'', tumor_size = 1, inv_nodes = 0,
      breast = ''Left'', metastasis = ''No'', breast_quadrant = ''Lower inner'',
      history = ''No'', submitted = True\<rparr>
   = Inr (Some [2023, 40, 0, 1, 0, 0, 0, 0, 0])"
  by (simp add: get_user_inputs_def encode_simps dict_get_def)

text \<open>
  C2. For every submission of the form, the vector that \<open>get_user_inputs\<close> builds has
  nine elements in the order Year, Age, Menopause, Tumor size, Inv-Nodes, Breast,
  Metastasis, Breast quadrant, History: the numeric fields as they were entered, each
  categorical field as the code its encoding table gives for the selected label.
  The select boxes offer only the labels of the tables; the numeric values need not
  even lie within the bounds of the sliders.
\<close>

theorem feature_vector_order:
  assumes "submitted f" and "labels_known f"
  shows "\<exists>m b t q h.
           encode ''Menopause'' (menopause f) = Inr m \<and>
           encode ''Breast'' (breast f) = Inr b \<and>
           encode ''Metastasis'' (metastasis f) = Inr t \<and>
           encode ''BreastQuadrant'' (breast_quadrant f) = Inr q \<and>
           encode ''History'' (history f) = Inr h \<and>
           get_user_inputs f =
             Inr (Some [year f, age f, m, tumor_size f, inv_nodes f, b, t, q, h])"
  using assms by (rule get_user_inputs_known)

theorem feature_vector_order_witness:
  "submitted scenario_form \<and> widget_values scenario_form \<and> labels_known scenario_form \<and>
   get_user_inputs scenario_form = Inr (Some [2023, 40, 0, 1, 0, 0, 0, 0, 0])"
proof -
  have s: "submitted scenario_form"
    by (simp add: scenario_form_def)
  have k: "labels_known scenario_form"
    using scenario_form_widget_values by (rule widget_values_labels_known)
  from feature_vector_order [OF s k] s k scenario_form_widget_values scenario_form_inputs
  show ?thesis
    by (simp add: scenario_inputs_def)
qed

text \<open>
  C8. When the encoding step is given a label that is not in the table of its field
  (the form was submitted with a value no select box offers), \<open>get_user_inputs\<close> raises
  \<open>KeyError\<close> for one of the form's labels; it returns no vector, so no default code
  stands in for the unknown label.
\<close>

theorem unknown_label_raises:
  assumes "submitted f" and "\<not> labels_known f"
  shows "\<exists>k. get_user_inputs f = Inl (PyExn KeyError (py_repr k)) \<and>
              k \<in> set [menopause f, breast f, metastasis f, breast_quadrant f, history f]"
  using assms by (rule get_user_inputs_unknown)

theorem unknown_label_raises_witness:
  "submitted misuse_form \<and> \<not> labels_known misuse_form \<and>
   get_user_inputs misuse_form = Inl (PyExn KeyError (py_repr ''Unknown''))"
proof -
  have s: "submitted misuse_form"
    by (simp add: misuse_form_def scenario_form_def)
  have u: "\<not> labels_known misuse_form"
    by (simp add: misuse_form_def scenario_form_def labels_known_def field_options_simps)
  have r: "get_user_inputs misuse_form = Inl (PyExn KeyError (py_repr ''Unknown''))"
    by (simp add: misuse_form_def scenario_form_def get_user_inputs_def encode_simps
        dict_get_def)
  from unknown_label_raises [OF s u] s u r show ?thesis
    by simp
qed

text \<open>
  C9. The table of History maps No to 0, Yes to 2 and None to 1, so its codes do not
  grow along its labels; Inv-Nodes has no encoding table, and the value entered for
  it is the fifth element of every vector that \<open>get_user_inputs\<close> returns.
\<close>

theorem history_codes_and_inv_nodes:
  "dict_get ENCODINGS ''History'' = Inr [(''No'', 0), (''Yes'', 2), (''None'', 1)] \<and>
   field_codes ''History'' = [0, 2, 1] \<and> \<not> sorted (field_codes ''History'') \<and>
   ''Inv-Nodes'' \<notin> set (dict_keys ENCODINGS) \<and>
   (\<forall>f v. get_user_inputs f = Inr (Some v) \<longrightarrow> v ! 4 = inv_nodes f)"
proof -
  have "v ! 4 = inv_nodes f" if v: "get_user_inputs f = Inr (Some v)" for f v
  proof -
    from v have s: "submitted f"
      by (auto simp: get_user_inputs_def split: if_splits)
    have "labels_known f"
    proof (rule ccontr)
      assume "\<not> labels_known f"
      from get_user_inputs_unknown [OF s this] v show False
        by auto
    qed
    from get_user_inputs_known [OF s this] v show ?thesis
      by auto
  qed
  then show ?thesis
    by (simp add: ENCODINGS_def dict_get_def dict_keys_def field_codes_def)
qed

theorem history_codes_and_inv_nodes_witness:
  "get_user_inputs scenario_form = Inr (Some scenario_inputs) \<and>
   scenario_inputs ! 4 = inv_nodes scenario_form"
  using history_codes_and_inv_nodes scenario_form_inputs by blast

section \<open>The floating-point model\<close>

text \<open>Rounding to an integer is off by at most a half.\<close>

lemma round_half_even_nearest:
  assumes "0 < d"
  shows "\<bar>2 * (round_half_even n d * d - n)\<bar> \<le> d"
proof -
  define q where "q = n div d"
  define r where "r = n mod d"
  have n: "n = q * d + r"
    by (simp add: q_def r_def)
  from assms have r: "0 \<le> r" "r < d"
    by (simp_all add: r_def)
  have "round_half_even n d = q \<and> 2 * r \<le> d \<or> round_half_even n d = q + 1 \<and> d \<le> 2 * r"
    by (auto simp: round_half_even_def Let_def q_def r_def)
  then show ?thesis
  proof
    assume "round_half_even n d = q \<and> 2 * r \<le> d"
    with r show ?thesis by (simp add: n)
  next
    assume "round_half_even n d = q + 1 \<and> d \<le> 2 * r"
    with r show ?thesis by (simp add: n algebra_simps)
  qed
qed

lemma bit_length_bounds:
  assumes "0 < n"
  shows "2 ^ bit_length n \<le> 2 * n \<and> n < 2 ^ bit_length n"
  using assms
proof (induction n rule: bit_length.induct)
  case (1 n)
  show ?case
  proof (cases "n = 1")
    case True
    then show ?thesis
      by (simp add: bit_length.simps)
  next
    case False
    with "1.prems" have pos: "0 < n div 2"
      by simp
    from "1.prems" have unfold: "bit_length n = Suc (bit_length (n div 2))"
      by (simp add: bit_length.simps)
    from "1.IH" [OF _ pos] "1.prems"
    have ih: "2 ^ bit_length (n div 2) \<le> 2 * (n div 2)" "n div 2 < 2 ^ bit_length (n div 2)"
      by simp_all
    from ih show ?thesis
      unfolding unfold by auto
  qed
qed

text \<open>The tests and quotients on integers, read as real numbers.\<close>

lemma scale_test:
  fixes a d k :: int
  shows "(if 0 \<le> k then d * 2 ^ nat k \<le> a else d \<le> a * 2 ^ nat (- k)) \<longleftrightarrow>
         real_of_int d * 2 powi k \<le> real_of_int a"
proof (cases "0 \<le> k")
  case True
  have "real_of_int d * 2 ^ nat k = real_of_int (d * 2 ^ nat k)"
    by simp
  with True show ?thesis
    by (simp only: power_int_def if_True of_int_le_iff)
next
  case False
  have "real_of_int a * 2 ^ nat (- k) = real_of_int (a * 2 ^ nat (- k))"
    by simp
  then have "real_of_int d \<le> real_of_int a * 2 ^ nat (- k) \<longleftrightarrow> d \<le> a * 2 ^ nat (- k)"
    by (simp only: of_int_le_iff)
  with False show ?thesis
    by (simp add: power_int_def field_simps)
qed

lemma scaled_divisor_pos:
  fixes d s :: int
  assumes "0 < d"
  shows "0 < (if 0 \<le> s then d else d * 2 ^ nat (- s))"
  using assms by simp

lemma scaled_quotient:
  fixes n d s :: int
  assumes "0 < d"
  shows "real_of_int (if 0 \<le> s then n * 2 ^ nat s else n) /
         real_of_int (if 0 \<le> s then d else d * 2 ^ nat (- s)) =
         real_of_int n / real_of_int d * 2 powi s"
  using assms by (simp add: power_int_def field_simps)

lemma round_half_even_real:
  assumes "0 < D"
  shows "\<bar>real_of_int (round_half_even N D) - real_of_int N / real_of_int D\<bar> \<le> 1 / 2"
proof -
  let ?q = "real_of_int (round_half_even N D)"
  from round_half_even_nearest [OF assms, of N]
  have "2 * \<bar>round_half_even N D * D - N\<bar> \<le> D"
    by (simp only: abs_mult abs_numeral)
  then have "real_of_int (2 * \<bar>round_half_even N D * D - N\<bar>) \<le> real_of_int D"
    by (simp only: of_int_le_iff)
  then have close: "\<bar>?q * real_of_int D - real_of_int N\<bar> \<le> real_of_int D / 2"
    by simp
  from assms have "?q - real_of_int N / real_of_int D =
      (?q * real_of_int D - real_of_int N) / real_of_int D"
    by (simp add: field_simps)
  then have "\<bar>?q - real_of_int N / real_of_int D\<bar> =
      \<bar>?q * real_of_int D - real_of_int N\<bar> / real_of_int D"
    using assms by (simp add: abs_divide del: of_int_diff of_int_mult)
  with close assms show ?thesis
    by (simp add: field_simps)
qed

text \<open>
  The result of rounding a ratio that is not zero: the mantissa has 53 bits (or is
  \<open>2 ^ 53\<close>, after a carry), and the value is within half a unit of the last place.
\<close>

lemma float64_round_correct:
  assumes "n \<noteq> 0" and "0 < d" and "float64_round n d = Float64 m e"
  shows "2 ^ 52 \<le> \<bar>m\<bar> \<and> \<bar>m\<bar> \<le> 2 ^ 53 \<and>
         \<bar>float64_value (Float64 m e) - real_of_int n / real_of_int d\<bar> \<le> 2 powi e / 2"
proof -
  define a where "a = \<bar>n\<bar>"
  define e0 where "e0 = int (bit_length a) - int (bit_length d)"
  define k where "k = (if real_of_int d * 2 powi e0 \<le> real_of_int a then e0 else e0 - 1)"
  define s where "s = 52 - k"
  define N where "N = (if 0 \<le> s then n * 2 ^ nat s else n)"
  define D where "D = (if 0 \<le> s then d else d * 2 ^ nat (- s))"
  let ?x = "real_of_int n / real_of_int d"
  from assms(1) have a: "0 < a"
    by (simp add: a_def)
  from assms(1,3) have m: "m = round_half_even N D" and e: "e = - s"
    by (simp_all add: float64_round_def Let_def scale_test N_def D_def s_def k_def e0_def a_def
        split: if_splits)
  from scaled_divisor_pos [OF assms(2)] have D: "0 < D"
    by (simp add: D_def)
  from scaled_quotient [OF assms(2)] have ND: "real_of_int N / real_of_int D = ?x * 2 powi s"
    by (simp only: N_def D_def)
  \<comment> \<open>the exponent of the leading bit\<close>
  from bit_length_bounds [OF a]
  have la: "2 ^ bit_length a \<le> 2 * real_of_int a" "real_of_int a < 2 ^ bit_length a"
    by (metis of_int_le_iff of_int_mult of_int_numeral of_int_power,
        metis of_int_less_iff of_int_numeral of_int_power)
  from bit_length_bounds [OF assms(2)]
  have ld: "2 ^ bit_length d \<le> 2 * real_of_int d" "real_of_int d < 2 ^ bit_length d"
    by (metis of_int_le_iff of_int_mult of_int_numeral of_int_power,
        metis of_int_less_iff of_int_numeral of_int_power)
  have split: "(2::real) ^ bit_length a = 2 powi e0 * 2 ^ bit_length d"
    by (simp add: e0_def power_int_diff)
  have upper0: "real_of_int a < real_of_int d * 2 powi (e0 + 1)"
  proof -
    have "real_of_int a < 2 ^ bit_length a"
      by (rule la(2))
    also have "\<dots> = 2 powi e0 * 2 ^ bit_length d"
      by (rule split)
    also from ld(1) have "\<dots> \<le> 2 powi e0 * (2 * real_of_int d)"
      by (simp add: mult_left_mono)
    finally show ?thesis
      by (simp add: power_int_add mult_ac)
  qed
  have lower0: "real_of_int d * 2 powi (e0 - 1) \<le> real_of_int a"
  proof -
    from ld(2) have "real_of_int d * 2 powi (e0 - 1) \<le> 2 ^ bit_length d * 2 powi (e0 - 1)"
      by (simp add: mult_right_mono)
    also have "\<dots> = 2 ^ bit_length a / 2"
      by (simp add: split power_int_diff)
    also from la(1) have "\<dots> \<le> real_of_int a"
      by simp
    finally show ?thesis .
  qed
  have bracket: "real_of_int d * 2 powi k \<le> real_of_int a \<and>
      real_of_int a < real_of_int d * 2 powi (k + 1)"
    using upper0 lower0 by (auto simp: k_def)
  \<comment> \<open>the scaled quotient lies between \<open>2 ^ 52\<close> and \<open>2 ^ 53\<close>\<close>
  have scaled: "2 ^ 52 \<le> \<bar>?x * 2 powi s\<bar> \<and> \<bar>?x * 2 powi s\<bar> < 2 ^ 53"
  proof -
    have "\<bar>?x * 2 powi s\<bar> = real_of_int a / real_of_int d * 2 powi s"
      using assms(2) by (simp add: abs_mult a_def)
    moreover from bracket assms(2)
    have lo: "2 powi k \<le> real_of_int a / real_of_int d"
      and hi: "real_of_int a / real_of_int d < 2 powi (k + 1)"
      by (simp_all add: field_simps)
    have pos: "(0::real) < 2 powi s"
      by simp
    have "2 powi k * 2 powi s \<le> real_of_int a / real_of_int d * 2 powi s"
      using lo less_imp_le [OF pos] by (rule mult_right_mono)
    moreover have "real_of_int a / real_of_int d * 2 powi s < 2 powi (k + 1) * 2 powi s"
      using hi pos by (rule mult_strict_right_mono)
    moreover have "(2::real) powi k * 2 powi s = 2 ^ 52" "(2::real) powi (k + 1) * 2 powi s = 2 ^ 53"
      by (simp_all add: s_def flip: power_int_add)
    ultimately show ?thesis
      by simp
  qed
  from round_half_even_real [OF D, of N]
  have near: "\<bar>real_of_int m - ?x * 2 powi s\<bar> \<le> 1 / 2"
    by (simp add: m ND)
  define y where "y = ?x * 2 powi s"
  from near scaled have "\<bar>real_of_int m - y\<bar> \<le> 1 / 2" "2 ^ 52 \<le> \<bar>y\<bar>" "\<bar>y\<bar> < 2 ^ 53"
    by (simp_all add: y_def)
  then have "2 ^ 52 - 1 / 2 \<le> \<bar>real_of_int m\<bar>" "\<bar>real_of_int m\<bar> < 2 ^ 53 + 1 / 2"
    by linarith+
  then have "real_of_int (2 ^ 52 - 1) < real_of_int \<bar>m\<bar>"
    "real_of_int \<bar>m\<bar> < real_of_int (2 ^ 53 + 1)"
    by simp_all
  then have "2 ^ 52 - 1 < \<bar>m\<bar>" "\<bar>m\<bar> < 2 ^ 53 + 1"
    by (simp_all only: of_int_less_iff)
  then have range: "2 ^ 52 \<le> \<bar>m\<bar>" "\<bar>m\<bar> \<le> 2 ^ 53"
    by simp_all
  have "float64_value (Float64 m e) - ?x = (real_of_int m - ?x * 2 powi s) * 2 powi e"
    by (simp add: e algebra_simps power_int_minus)
  then have "\<bar>float64_value (Float64 m e) - ?x\<bar> = \<bar>real_of_int m - ?x * 2 powi s\<bar> * 2 powi e"
    by (simp add: abs_mult)
  also from near have "\<dots> \<le> 1 / 2 * 2 powi e"
    by (simp add: mult_right_mono)
  finally show ?thesis
    using range by simp
qed

text \<open>A product is the exact product, rounded.\<close>

lemma float64_mult_correct:
  assumes "m1 * m2 \<noteq> 0" and "float64_mult (Float64 m1 e1) (Float64 m2 e2) = Float64 m e"
  shows "2 ^ 52 \<le> \<bar>m\<bar> \<and> \<bar>m\<bar> \<le> 2 ^ 53 \<and>
         \<bar>float64_value (Float64 m e) -
            float64_value (Float64 m1 e1) * float64_value (Float64 m2 e2)\<bar> \<le> 2 powi e / 2"
proof -
  define k where "k = e1 + e2"
  define n where "n = (if 0 \<le> k then m1 * m2 * 2 ^ nat k else m1 * m2)"
  define d :: int where "d = (if 0 \<le> k then 1 else 2 ^ nat (- k))"
  from assms(1) have n: "n \<noteq> 0" and d: "0 < d"
    by (simp_all add: n_def d_def)
  from assms(2) have r: "float64_round n d = Float64 m e"
    by (simp add: n_def d_def k_def Let_def split: if_splits)
  have "float64_value (Float64 m1 e1) * float64_value (Float64 m2 e2) =
      real_of_int (m1 * m2) * 2 powi k"
    by (simp add: k_def power_int_add)
  also have "\<dots> = real_of_int n / real_of_int d"
    by (simp add: n_def d_def power_int_def field_simps)
  finally show ?thesis
    using float64_round_correct [OF n d r] by simp
qed


lemma round_half_even_nonneg:
  assumes "0 \<le> n" and "0 < d"
  shows "0 \<le> round_half_even n d"
proof -
  from assms have "0 \<le> n div d"
    by (simp add: pos_imp_zdiv_nonneg_iff)
  then show ?thesis
    by (simp add: round_half_even_def Let_def)
qed

text \<open>The digits that \<open>format_1f\<close> writes are those of the nearest number of tenths.\<close>

lemma format_1f_tenths:
  "\<exists>t. format_1f (Float64 m e) =
          (if m < 0 then ''-'' else []) @ str_digits (t div 10) @ ''.'' @ str_digits (t mod 10) \<and>
        0 \<le> t \<and>
        \<bar>real_of_int t - 10 * \<bar>float64_value (Float64 m e)\<bar>\<bar> \<le> 1 / 2"
proof (cases "0 \<le> e")
  case True
  let ?t = "\<bar>m\<bar> * 2 ^ nat e * 10"
  from True have "real_of_int ?t = 10 * \<bar>float64_value (Float64 m e)\<bar>"
    by (simp add: power_int_def abs_mult)
  with True show ?thesis
    by (intro exI [of _ ?t]) (simp add: Let_def)
next
  case False
  let ?d = "(2::int) ^ nat (- e)"
  let ?t = "round_half_even (\<bar>m\<bar> * 10) ?d"
  have d: "0 < ?d"
    by simp
  from False have "real_of_int (\<bar>m\<bar> * 10) / real_of_int ?d = 10 * \<bar>float64_value (Float64 m e)\<bar>"
    by (simp add: power_int_def abs_mult field_simps)
  with round_half_even_real [OF d, of "\<bar>m\<bar> * 10"]
  have "\<bar>real_of_int ?t - 10 * \<bar>float64_value (Float64 m e)\<bar>\<bar> \<le> 1 / 2"
    by simp
  moreover have "0 \<le> ?t"
    by (rule round_half_even_nonneg) simp_all
  ultimately show ?thesis
    using False by (intro exI [of _ ?t]) (simp add: Let_def)
qed

text \<open>
  The numbers of the scenarios, as \<open>float.hex\<close> gives them: 0.82 is
  \<open>0x1.a3d70a3d70a3dp-1\<close>, 0.18 is \<open>0x1.70a3d70a3d70ap-3\<close>, 0.1 is
  \<open>0x1.999999999999ap-4\<close>, 0.9 is \<open>0x1.ccccccccccccdp-1\<close>, and 100.0 is
  \<open>0x1.9p+6\<close>. Their products with 100 are 82, 18, 10 and 90 exactly.
\<close>

lemma scenario_floats:
  "float64_round 82 100 = Float64 0x1A3D70A3D70A3D (- 53)"
  "float64_round 18 100 = Float64 0x170A3D70A3D70A (- 55)"
  "float64_round 10 100 = Float64 0x1999999999999A (- 56)"
  "float64_round 90 100 = Float64 0x1CCCCCCCCCCCCD (- 53)"
  "float64_of_int 100 = Float64 0x19000000000000 (- 46)"
  by (simp_all add: float64_of_int_def float64_round_def bit_length.simps round_half_even_def
      Let_def)

lemma scenario_percents:
  "percent (float64_round 82 100) = Float64 (82 * 2 ^ 46) (- 46)"
  "percent (float64_round 18 100) = Float64 (18 * 2 ^ 48) (- 48)"
  "percent (float64_round 10 100) = Float64 (10 * 2 ^ 49) (- 49)"
  "percent (float64_round 90 100) = Float64 (90 * 2 ^ 46) (- 46)"
  by (simp_all add: percent_def scenario_floats float64_round_def bit_length.simps
      round_half_even_def Let_def)

section \<open>Prediction and display\<close>

lemma scenario_frame: "data_frame scenario_inputs feature_names = Inr (feature_names, scenario_inputs)"
  by (simp add: data_frame_def scenario_inputs_def feature_names_def)

lemma make_prediction_None:
  "make_prediction None input_data = ([], Inr (PStr ''Error: Model not available'', None))"
  by (simp add: make_prediction_def)

lemma load_model_None:
  assumes "load_model attempt = Inr (None, shown)"
  shows "\<exists>e. attempt = Inl e \<and> is_Exception e"
proof (cases attempt)
  case (Inl e)
  with assms have "is_Exception e"
    by (auto simp: load_model_def is_Exception_def split: if_splits)
  with Inl show ?thesis
    by simp
next
  case (Inr model)
  with assms show ?thesis
    by (simp add: load_model_def)
qed

lemma load_model_file_not_found:
  "load_model (Inl (PyExn FileNotFoundError m)) =
     Inr (None,
       [Error (''Model file not found. Please ensure '' @ py_repr ''Deployment_model.pkl'' @
               '' is in the correct directory.'')])"
  by (simp add: load_model_def)

lemma display_results_message:
  "display_results (PStr message) probability =
     ([Subheader ''Assessment Results'', Error message], None)"
  by (simp add: display_results_def)

lemma display_results_two:
  "display_results (PInt 0) (Some [a, b]) =
     ([Subheader ''Assessment Results'', Success (result_line ''Benign'' (percent a)), Balloons,
       Write low_risk_text, details a b], None)"
  "display_results (PInt 1) (Some [a, b]) =
     ([Subheader ''Assessment Results'', Error (result_line ''Malignant'' (percent b)),
       Write consult_text, details a b], None)"
  "display_results (PInt (- 1)) (Some [a, b]) =
     ([Subheader ''Assessment Results'', Error (result_line ''Malignant'' (percent b)),
       Write consult_text, details a b], None)"
  "display_results (PInt (- 2)) (Some [a, b]) =
     ([Subheader ''Assessment Results'', Error (result_line ''Malignant'' (percent a)),
       Write consult_text, details a b], None)"
  by (simp_all add: display_results_def proba_subscript_def subscript_def result_label_def
      details_def)

lemma display_results_out_of_bounds:
  assumes "p < - 2 \<or> 1 < p"
  shows "display_results (PInt p) (Some [a, b]) =
           ([Subheader ''Assessment Results''],
            Some (PyExn IndexError
              (''index '' @ str_int p @ '' is out of bounds for axis 0 with size '' @ str_int 2)))"
  using assms by (auto simp: display_results_def proba_subscript_def subscript_def)

lemma two_elements:
  assumes "length xs = 2"
  obtains a b where "xs = [a, b]"
  using assms by (auto simp: length_Suc_conv numeral_2_eq_2)

text \<open>
  C3. For a class code 0 or 1, the two values a binary classifier returns, the label
  that \<open>display_results\<close> shows is "Benign" exactly when the code is 0 and
  "Malignant" exactly when it is 1; whatever the code, the label is one of these
  two, every code other than 0 getting "Malignant".
\<close>

theorem label_of_class_code:
  "(result_label p = ''Benign'' \<longleftrightarrow> p = 0) \<and>
   (result_label p = ''Benign'' \<or> result_label p = ''Malignant'') \<and>
   (p = 0 \<or> p = 1 \<longrightarrow>
      (result_label p = ''Malignant'' \<longleftrightarrow> p = 1) \<and>
      (\<forall>a b. \<exists>rest.
         display_results (PInt p) (Some [a, b]) =
           (Subheader ''Assessment Results'' #
            (if p = 0 then Success (result_line ''Benign'' (percent a))
             else Error (result_line ''Malignant'' (percent b))) # rest,
            None)))"
  by (auto simp: result_label_def display_results_two)

theorem label_of_class_code_witness:
  "result_label 1 = ''Malignant'' \<and> result_label 0 = ''Benign'' \<and>
   (\<exists>rest. display_results (PInt 1) (Some malignant_proba) =
      (Subheader ''Assessment Results'' #
       Error (result_line ''Malignant'' (percent (float64_round 90 100))) # rest, None))"
  using label_of_class_code [of 1] label_of_class_code [of 0]
  by (simp add: malignant_proba_def)

text \<open>
  C4. When the classifier returns class 0 with probabilities [0.82, 0.18],
  \<open>make_prediction\<close> hands them on and \<open>display_results\<close> shows the label "Benign" with
  "82.0% confidence" and, in the detail view, "Benign probability: 82.0%" and
  "Malignant probability: 18.0%"; with class 1 and probabilities [0.10, 0.90] it shows
  "Malignant" with "90.0% confidence". The confidence is the probability of the
  predicted class times 100, formatted with one decimal.
\<close>

theorem scenario_results:
  "make_prediction
     (Some (constant_classifier (PInt 0) [float64_round 82 100, float64_round 18 100]))
     [2023, 40, 0, 1, 0, 0, 0, 0, 0] =
     ([Predict (feature_names, [2023, 40, 0, 1, 0, 0, 0, 0, 0]),
       PredictProba (feature_names, [2023, 40, 0, 1, 0, 0, 0, 0, 0])],
      Inr (PInt 0, Some [float64_round 82 100, float64_round 18 100])) \<and>
   display_results (PInt 0) (Some [float64_round 82 100, float64_round 18 100]) =
     ([Subheader ''Assessment Results'',
       Success ''**Result:** Benign (82.0% confidence)'',
       Balloons,
       Write low_risk_text,
       Expander ''See detailed probabilities''
         [Write ''Benign probability: 82.0%'', Write ''Malignant probability: 18.0%'']],
      None) \<and>
   make_prediction
     (Some (constant_classifier (PInt 1) [float64_round 10 100, float64_round 90 100]))
     [2023, 40, 0, 1, 0, 0, 0, 0, 0] =
     ([Predict (feature_names, [2023, 40, 0, 1, 0, 0, 0, 0, 0]),
       PredictProba (feature_names, [2023, 40, 0, 1, 0, 0, 0, 0, 0])],
      Inr (PInt 1, Some [float64_round 10 100, float64_round 90 100])) \<and>
   display_results (PInt 1) (Some [float64_round 10 100, float64_round 90 100]) =
     ([Subheader ''Assessment Results'',
       Error ''**Result:** Malignant (90.0% confidence)'',
       Write consult_text,
       Expander ''See detailed probabilities''
         [Write ''Benign probability: 10.0%'', Write ''Malignant probability: 90.0%'']],
      None)"
  by code_simp

text \<open>
  C5. When loading the artifact failed, so that the cached model is \<open>None\<close>,
  \<open>make_prediction\<close> returns the failure "Error: Model not available" for every input
  vector and makes no call of \<open>predict\<close> or \<open>predict_proba\<close>. The cached model is
  \<open>None\<close> only after opening or unpickling the file raised.
\<close>

theorem model_unavailable_no_inference:
  assumes "load_model attempt = Inr (cached, shown)" and "cached = None"
  shows "make_prediction cached input_data =
           ([], Inr (PStr ''Error: Model not available'', None)) \<and>
         (\<exists>e. attempt = Inl e \<and> is_Exception e)"
  using assms load_model_None [of attempt shown] by (simp add: make_prediction_None)

theorem model_unavailable_no_inference_witness:
  "load_model (Inl file_not_found) =
     Inr (None,
       [Error (''Model file not found. Please ensure '' @ py_repr ''Deployment_model.pkl'' @
               '' is in the correct directory.'')]) \<and>
   make_prediction None scenario_inputs =
     ([], Inr (PStr ''Error: Model not available'', None))"
proof -
  have l: "load_model (Inl file_not_found) =
     Inr (None,
       [Error (''Model file not found. Please ensure '' @ py_repr ''Deployment_model.pkl'' @
               '' is in the correct directory.'')])"
    by (simp add: file_not_found_def load_model_file_not_found)
  from model_unavailable_no_inference [OF l refl, of scenario_inputs] l show ?thesis
    by simp
qed

text \<open>
  C6. When \<open>predict\<close> or \<open>predict_proba\<close> raises an error on the frame of an input,
  \<open>make_prediction\<close> does not let it through: it returns the message
  "Prediction error: " followed by the text of the error, with no probabilities.
  \<open>display_results\<close> shows that message as an error under the heading, shows nothing
  else, and ends without an exception.
\<close>

theorem inference_failure_reported:
  assumes "is_Exception e"
    and "data_frame input_data feature_names = Inr df"
    and "predict b df = Inl e \<or>
         (\<exists>c cs. predict b df = Inr (c # cs) \<and> predict_proba b df = Inl e)"
  shows "snd (make_prediction (Some b) input_data) =
           Inr (PStr (''Prediction error: '' @ exn_str e), None) \<and>
         display_results (PStr (''Prediction error: '' @ exn_str e)) None =
           ([Subheader ''Assessment Results'', Error (''Prediction error: '' @ exn_str e)],
            None)"
proof -
  from assms(3) have "\<exists>calls. try_predict b input_data = (calls, Inl e)"
  proof
    assume "predict b df = Inl e"
    with assms(2) show ?thesis
      by (simp add: try_predict_def)
  next
    assume "\<exists>c cs. predict b df = Inr (c # cs) \<and> predict_proba b df = Inl e"
    with assms(2) show ?thesis
      by (auto simp: try_predict_def subscript_def)
  qed
  with assms(1) have "snd (make_prediction (Some b) input_data) =
      Inr (PStr (''Prediction error: '' @ exn_str e), None)"
    by (auto simp: make_prediction_def)
  then show ?thesis
    by (simp add: display_results_message)
qed

theorem inference_failure_reported_witness:
  "is_Exception schema_mismatch \<and>
   predict_proba (failing_classifier schema_mismatch) (feature_names, scenario_inputs) =
     Inl schema_mismatch \<and>
   make_prediction (Some (failing_classifier schema_mismatch)) scenario_inputs =
     ([Predict (feature_names, scenario_inputs), PredictProba (feature_names, scenario_inputs)],
      Inr (PStr ''Prediction error: X has 9 features, but the model is expecting 8'', None)) \<and>
   display_results (PStr ''Prediction error: X has 9 features, but the model is expecting 8'')
     None =
     ([Subheader ''Assessment Results'',
       Error ''Prediction error: X has 9 features, but the model is expecting 8''], None)"
proof -
  have e: "is_Exception schema_mismatch"
    by (simp add: is_Exception_def schema_mismatch_def)
  have p: "predict (failing_classifier schema_mismatch) (feature_names, scenario_inputs) =
             Inl schema_mismatch \<or>
           (\<exists>c cs. predict (failing_classifier schema_mismatch) (feature_names, scenario_inputs) =
                      Inr (c # cs) \<and>
                    predict_proba (failing_classifier schema_mismatch)
                      (feature_names, scenario_inputs) = Inl schema_mismatch)"
    by (simp add: failing_classifier_def)
  have m: "make_prediction (Some (failing_classifier schema_mismatch)) scenario_inputs =
     ([Predict (feature_names, scenario_inputs), PredictProba (feature_names, scenario_inputs)],
      Inr (PStr ''Prediction error: X has 9 features, but the model is expecting 8'', None))"
    by (simp add: make_prediction_def try_predict_def scenario_frame failing_classifier_def
        subscript_def is_Exception_def schema_mismatch_def)
  from inference_failure_reported [OF e scenario_frame p] e m show ?thesis
    by (simp add: failing_classifier_def schema_mismatch_def)
qed

text \<open>
  C7, as the code has it. When the artifact file is absent at startup, \<open>load_model\<close>
  shows a message that names the file \<open>Deployment_model.pkl\<close> and caches \<open>None\<close>;
  every assessment attempt then returns the failure "Error: Model not available"
  without a call on a classifier. That failure does not name the file, as the
  counterexample below records.
\<close>

theorem missing_artifact_named_at_load:
  "(\<exists>message.
      load_model (Inl (PyExn FileNotFoundError m)) = Inr (None, [Error message]) \<and>
      str_contains message ''Deployment_model.pkl'') \<and>
   failure_message (make_prediction None input_data) = Some ''Error: Model not available'' \<and>
   fst (make_prediction None input_data) = []"
proof -
  have "str_contains
          (''Model file not found. Please ensure '' @ py_repr ''Deployment_model.pkl'' @
           '' is in the correct directory.'') ''Deployment_model.pkl''"
    by (simp add: py_repr_def)
  then show ?thesis
    by (simp add: load_model_file_not_found make_prediction_None failure_message_def)
qed

text \<open>
  C7 as stated fails: the failure that an assessment attempt returns after the file
  was absent does not contain the name of the artifact file.
\<close>

theorem missing_artifact_message_counterexample:
  "load_model (Inl file_not_found) =
     Inr (None,
       [Error (''Model file not found. Please ensure '' @ py_repr ''Deployment_model.pkl'' @
               '' is in the correct directory.'')]) \<and>
   failure_message (make_prediction None [2023, 40, 0, 1, 0, 0, 0, 0, 0]) =
     Some ''Error: Model not available'' \<and>
   \<not> str_contains ''Error: Model not available'' ''Deployment_model.pkl''"
  by (simp add: file_not_found_def load_model_file_not_found make_prediction_None
      failure_message_def)

text \<open>
  C10, as the code has it. With a list of exactly two probabilities: for a class code
  0 or 1 every subscript of \<open>display_results\<close> is within bounds and it ends without
  an exception; a code of -1 or -2 is within bounds as well, since a negative index
  counts from the end, and \<open>display_results\<close> ends without an exception; a code
  above 1 or below -2 makes the confidence subscript raise \<open>IndexError\<close>, after the
  heading alone has been shown.
\<close>

theorem probability_subscripts:
  assumes "length probs = 2"
  shows "(p = 0 \<or> p = 1 \<longrightarrow>
            proba_subscript (Some probs) p = Inr (probs ! nat p) \<and>
            proba_subscript (Some probs) 0 = Inr (probs ! 0) \<and>
            proba_subscript (Some probs) 1 = Inr (probs ! 1) \<and>
            snd (display_results (PInt p) (Some probs)) = None) \<and>
         (p = - 1 \<or> p = - 2 \<longrightarrow>
            proba_subscript (Some probs) p = Inr (probs ! nat (2 + p)) \<and>
            snd (display_results (PInt p) (Some probs)) = None) \<and>
         (p < - 2 \<or> 1 < p \<longrightarrow>
            (\<exists>message.
               proba_subscript (Some probs) p = Inl (PyExn IndexError message) \<and>
               display_results (PInt p) (Some probs) =
                 ([Subheader ''Assessment Results''], Some (PyExn IndexError message))))"
proof -
  from assms obtain a b where probs: "probs = [a, b]"
    by (rule two_elements)
  have "proba_subscript (Some [a, b]) p = Inr ([a, b] ! nat p) \<and>
        proba_subscript (Some [a, b]) 0 = Inr a \<and>
        proba_subscript (Some [a, b]) 1 = Inr b \<and>
        snd (display_results (PInt p) (Some [a, b])) = None" if "p = 0 \<or> p = 1"
    using that by (auto simp: proba_subscript_def subscript_def display_results_two)
  moreover have "proba_subscript (Some [a, b]) p = Inr ([a, b] ! nat (2 + p)) \<and>
        snd (display_results (PInt p) (Some [a, b])) = None" if "p = - 1 \<or> p = - 2"
    using that by (auto simp: proba_subscript_def subscript_def display_results_two)
  moreover have "\<exists>message.
        proba_subscript (Some [a, b]) p = Inl (PyExn IndexError message) \<and>
        display_results (PInt p) (Some [a, b]) =
          ([Subheader ''Assessment Results''], Some (PyExn IndexError message))"
    if "p < - 2 \<or> 1 < p"
    using that display_results_out_of_bounds [OF that, of a b]
    by (auto simp: proba_subscript_def subscript_def)
  ultimately show ?thesis
    by (simp add: probs)
qed

theorem probability_subscripts_witness:
  "length malignant_proba = 2 \<and>
   snd (display_results (PInt 1) (Some malignant_proba)) = None \<and>
   snd (display_results (PInt (- 1)) (Some malignant_proba)) = None \<and>
   (\<exists>message. display_results (PInt 2) (Some malignant_proba) =
      ([Subheader ''Assessment Results''], Some (PyExn IndexError message)))"
proof -
  have l: "length malignant_proba = 2"
    by (simp add: malignant_proba_def)
  from probability_subscripts [OF l, of 1] probability_subscripts [OF l, of "- 1"]
    probability_subscripts [OF l, of 2] l
  show ?thesis
    by auto
qed

text \<open>
  C10 as stated fails for a class code outside 0 and 1 whose confidence subscript is
  within bounds: with the
  probabilities [0.10, 0.90] and the code -1, \<open>display_results\<close> reads the last
  probability, shows "Malignant" with 90.0% and ends without an exception.
\<close>

theorem negative_code_counterexample:
  "proba_subscript (Some [float64_round 10 100, float64_round 90 100]) (- 1) =
     Inr (float64_round 90 100) \<and>
   display_results (PInt (- 1)) (Some [float64_round 10 100, float64_round 90 100]) =
     ([Subheader ''Assessment Results'',
       Error ''**Result:** Malignant (90.0% confidence)'',
       Write consult_text,
       Expander ''See detailed probabilities''
         [Write ''Benign probability: 10.0%'', Write ''Malignant probability: 90.0%'']],
      None)"
  by code_simp

end
